theory Spec2Isabelle
  imports Main "HOL-Library.Word" "HOL-Library.Sublist"
begin

section \<open>Data model of the file service\<close>

text \<open>
  A \<^verbatim>\<open>Date\<close> is a time value, the milliseconds since the epoch, or the Invalid Date
  that \<^verbatim>\<open>new Date(x)\<close> gives for an \<open>x\<close> it cannot read; the share handler stores
  \<^verbatim>\<open>new Date(expiresAt)\<close> for every truthy \<^verbatim>\<open>expiresAt\<close> of a request, so both reach
  the table.
\<close>

datatype Date = Time int | InvalidDate

text \<open>
  \<^verbatim>\<open>now > d\<close> for the valid date \<^verbatim>\<open>now = new Date()\<close>: the time values are compared,
  and the time value of an Invalid Date is \<^verbatim>\<open>NaN\<close>, which makes every comparison
  false.
\<close>

fun laterThan :: "int \<Rightarrow> Date \<Rightarrow> bool" where
  "laterThan now (Time e) = (now > e)"
| "laterThan now InvalidDate = False"

text \<open>
  The three interfaces of \<^verbatim>\<open>services/file.service.ts\<close>. A \<^verbatim>\<open>string | null\<close> field
  is an option, and a size is an integer number of bytes. \<open>createdAt\<close> and \<open>updatedAt\<close>
  only ever hold a \<^verbatim>\<open>new Date()\<close>, the clock, and are its milliseconds; \<open>expiresAt\<close>
  comes from a request and is a \<open>Date\<close>.
\<close>

record File =
  id :: string
  userId :: string
  name :: string
  size :: int
  mimeType :: string
  key :: string
  folderId :: "string option"
  createdAt :: int
  updatedAt :: int

record Folder =
  id :: string
  userId :: string
  name :: string
  parentId :: "string option"
  createdAt :: int
  updatedAt :: int

record ShareLink =
  id :: string
  fileId :: string
  userId :: string
  token :: string
  expiresAt :: "Date option"
  isPublic :: bool
  allowedEmails :: "string list"
  createdAt :: int

text \<open>
  The module-level arrays \<^verbatim>\<open>files\<close>, \<^verbatim>\<open>folders\<close> and \<^verbatim>\<open>shareLinks\<close>. Every method
  of the service takes the tables and returns them updated.
\<close>

record Tables =
  files :: "File list"
  folders :: "Folder list"
  shareLinks :: "ShareLink list"

text \<open>
  What the code throws: the three \<^verbatim>\<open>Error\<close> messages of the file service, the
  message of the storage service, an exception of the storage medium, and the
  \<^verbatim>\<open>RangeError\<close> of a recursion deeper than the call stack.
\<close>

datatype error =
    FileNotFound
  | FolderNotFound
  | ShareLinkNotFound
  | S3ClientNotInitialized
  | IOError
  | RangeError

section \<open>Array primitives\<close>

text \<open>\<^verbatim>\<open>Array.prototype.findIndex\<close>: the first index whose element satisfies the
  predicate, or \<open>-1\<close>.\<close>

fun findIndex :: "('a \<Rightarrow> bool) \<Rightarrow> 'a list \<Rightarrow> int" where
  "findIndex P [] = - 1"
| "findIndex P (x # xs) =
     (if P x then 0
      else (let r = findIndex P xs in if r = - 1 then - 1 else r + 1))"

text \<open>\<^verbatim>\<open>xs.splice(index, 1)\<close> for a non-negative index: the element there is
  removed, and an index past the end removes nothing.\<close>

definition splice1 :: "int \<Rightarrow> 'a list \<Rightarrow> 'a list" where
  "splice1 i xs = take (nat i) xs @ drop (Suc (nat i)) xs"

text \<open>
  The idiom of both delete methods:
  \<^verbatim>\<open>xs.map((x, index) => (P(x) ? index : -1)).filter(index => index !== -1).sort((a, b) => b - a)\<close>
  followed by \<^verbatim>\<open>for (const index of indices) xs.splice(index, 1)\<close>.
\<close>

definition matchingIndices :: "('a \<Rightarrow> bool) \<Rightarrow> 'a list \<Rightarrow> int list" where
  "matchingIndices P xs =
     rev (sort (filter (\<lambda>index. index \<noteq> - 1)
       (map (\<lambda>(index, x). if P x then int index else - 1) (enumerate 0 xs))))"

definition spliceAll :: "int list \<Rightarrow> 'a list \<Rightarrow> 'a list" where
  "spliceAll indices xs = foldl (\<lambda>acc index. splice1 index acc) xs indices"

section \<open>FileService\<close>

text \<open>\<^verbatim>\<open>createFile\<close>. The fresh \<^verbatim>\<open>uuidv4()\<close> and the clock are inputs.\<close>

record FileData =
  fd_userId :: string
  fd_name :: string
  fd_size :: int
  fd_mimeType :: string
  fd_key :: string
  fd_folderId :: "string option"

definition createFile :: "string \<Rightarrow> int \<Rightarrow> FileData \<Rightarrow> Tables \<Rightarrow> File \<times> Tables" where
  "createFile uuid now fileData t =
     (let newFile = \<lparr> File.id = uuid, userId = fd_userId fileData, name = fd_name fileData,
                       size = fd_size fileData, mimeType = fd_mimeType fileData,
                       key = fd_key fileData, folderId = fd_folderId fileData,
                       createdAt = now, updatedAt = now \<rparr>
      in (newFile, t\<lparr>files := files t @ [newFile]\<rparr>))"

definition getFileById :: "string \<Rightarrow> string \<Rightarrow> Tables \<Rightarrow> File option" where
  "getFileById file_id user_id t =
     find (\<lambda>f. File.id f = file_id \<and> File.userId f = user_id) (files t)"

text \<open>
  \<^verbatim>\<open>updateFile(fileId, {name?, folderId?})\<close>. An absent \<^verbatim>\<open>name\<close> is \<open>None\<close>; the
  test \<^verbatim>\<open>if (fileData.name)\<close> is the truthiness of a string, false for the empty
  one. \<^verbatim>\<open>folderId\<close> has three cases: absent (\<open>None\<close>), \<^verbatim>\<open>null\<close> (\<open>Some None\<close>) and
  a string.
\<close>

definition updateFile ::
  "int \<Rightarrow> string \<Rightarrow> string option \<Rightarrow> string option option \<Rightarrow> Tables \<Rightarrow> error + (File \<times> Tables)" where
  "updateFile now file_id newName newFolderId t =
     (let fileIndex = findIndex (\<lambda>f. File.id f = file_id) (files t) in
      if fileIndex = - 1 then Inl FileNotFound
      else
        let file = files t ! nat fileIndex;
            updatedFile1 = (case newName of
                              None \<Rightarrow> file
                            | Some n \<Rightarrow> if n \<noteq> [] then file\<lparr>File.name := n\<rparr> else file);
            updatedFile2 = (case newFolderId of
                              None \<Rightarrow> updatedFile1
                            | Some fo \<Rightarrow> updatedFile1\<lparr>folderId := fo\<rparr>);
            updatedFile = updatedFile2\<lparr>File.updatedAt := now\<rparr>
        in Inr (updatedFile, t\<lparr>files := (files t)[nat fileIndex := updatedFile]\<rparr>))"

text \<open>\<^verbatim>\<open>deleteFile(fileId)\<close>: the first file with the id, then every share link
  of that file.\<close>

definition deleteFile :: "string \<Rightarrow> Tables \<Rightarrow> error + Tables" where
  "deleteFile file_id t =
     (let fileIndex = findIndex (\<lambda>f. File.id f = file_id) (files t) in
      if fileIndex = - 1 then Inl FileNotFound
      else
        let files' = splice1 fileIndex (files t);
            shareLinkIndices = matchingIndices (\<lambda>link. fileId link = file_id) (shareLinks t)
        in Inr (t\<lparr>files := files', shareLinks := spliceAll shareLinkIndices (shareLinks t)\<rparr>))"

text \<open>\<^verbatim>\<open>createFolder({userId, name, parentId})\<close>: no statement of the method throws.\<close>

definition createFolder ::
  "string \<Rightarrow> int \<Rightarrow> string \<Rightarrow> string \<Rightarrow> string option \<Rightarrow> Tables \<Rightarrow> Folder \<times> Tables" where
  "createFolder uuid now user_id folderName parent t =
     (let newFolder = \<lparr> Folder.id = uuid, userId = user_id, name = folderName,
                         parentId = parent, createdAt = now, updatedAt = now \<rparr>
      in (newFolder, t\<lparr>folders := folders t @ [newFolder]\<rparr>))"

definition getFolderById :: "string \<Rightarrow> string \<Rightarrow> Tables \<Rightarrow> Folder option" where
  "getFolderById folder_id user_id t =
     find (\<lambda>f. Folder.id f = folder_id \<and> Folder.userId f = user_id) (folders t)"

definition updateFolder ::
  "int \<Rightarrow> string \<Rightarrow> string option \<Rightarrow> string option option \<Rightarrow> Tables \<Rightarrow> error + (Folder \<times> Tables)" where
  "updateFolder now folder_id newName newParentId t =
     (let folderIndex = findIndex (\<lambda>f. Folder.id f = folder_id) (folders t) in
      if folderIndex = - 1 then Inl FolderNotFound
      else
        let folder = folders t ! nat folderIndex;
            updatedFolder1 = (case newName of
                                None \<Rightarrow> folder
                              | Some n \<Rightarrow> if n \<noteq> [] then folder\<lparr>Folder.name := n\<rparr> else folder);
            updatedFolder2 = (case newParentId of
                                None \<Rightarrow> updatedFolder1
                              | Some p \<Rightarrow> updatedFolder1\<lparr>parentId := p\<rparr>);
            updatedFolder = updatedFolder2\<lparr>Folder.updatedAt := now\<rparr>
        in Inr (updatedFolder, t\<lparr>folders := (folders t)[nat folderIndex := updatedFolder]\<rparr>))"

text \<open>
  \<^verbatim>\<open>getAllSubfolderIds\<close> calls itself once per direct subfolder and has no other
  bound: on a cyclic parent relation the recursion ends only when the call stack is
  exhausted. The first argument is the number of stack frames left, and \<open>None\<close> is the
  \<^verbatim>\<open>RangeError\<close> raised when none is.
\<close>

fun getAllSubfolderIds :: "nat \<Rightarrow> Folder list \<Rightarrow> string \<Rightarrow> string list option"
  and subfolderLoop :: "nat \<Rightarrow> Folder list \<Rightarrow> Folder list \<Rightarrow> string list \<Rightarrow> string list option"
where
  "getAllSubfolderIds 0 fs folder_id = None"
| "getAllSubfolderIds (Suc depth) fs folder_id =
     subfolderLoop depth fs (filter (\<lambda>f. parentId f = Some folder_id) fs) []"
| "subfolderLoop depth fs [] subfolderIds = Some subfolderIds"
| "subfolderLoop depth fs (subfolder # rest) subfolderIds =
     (case getAllSubfolderIds depth fs (Folder.id subfolder) of
        None \<Rightarrow> None
      | Some childIds \<Rightarrow>
          subfolderLoop depth fs rest (subfolderIds @ [Folder.id subfolder] @ childIds))"

text \<open>
  \<^verbatim>\<open>deleteFolder(folderId, userId)\<close>. The files test is
  \<^verbatim>\<open>allFolderIds.includes(file.folderId || '')\<close>: a \<^verbatim>\<open>null\<close> folder id is looked up as
  the empty string.
\<close>

definition deleteFolder :: "nat \<Rightarrow> string \<Rightarrow> string \<Rightarrow> Tables \<Rightarrow> error + Tables" where
  "deleteFolder stack folder_id user_id t =
     (let folderIndex =
            findIndex (\<lambda>f. Folder.id f = folder_id \<and> Folder.userId f = user_id) (folders t) in
      if folderIndex = - 1 then Inl FolderNotFound
      else
        case getAllSubfolderIds stack (folders t) folder_id of
          None \<Rightarrow> Inl RangeError
        | Some subIds \<Rightarrow>
            let allFolderIds = subIds @ [folder_id];
                fileIndices = matchingIndices
                  (\<lambda>file. (case File.folderId file of None \<Rightarrow> [] | Some i \<Rightarrow> i) \<in> set allFolderIds)
                  (files t);
                files' = spliceAll fileIndices (files t);
                folderIndices = matchingIndices (\<lambda>folder. Folder.id folder \<in> set allFolderIds) (folders t)
            in Inr (t\<lparr>files := files', folders := spliceAll folderIndices (folders t)\<rparr>))"

text \<open>\<^verbatim>\<open>createShareLink\<close>: two fresh uuids, one for the id and one for the token;
  \<^verbatim>\<open>shareData.expiresAt || null\<close> of an optional \<^verbatim>\<open>Date\<close> keeps every \<^verbatim>\<open>Date\<close>, the
  invalid one too, since an object is truthy.\<close>

definition createShareLink ::
  "string \<Rightarrow> string \<Rightarrow> int \<Rightarrow> string \<Rightarrow> string \<Rightarrow> Date option \<Rightarrow> bool \<Rightarrow> string list \<Rightarrow> Tables
     \<Rightarrow> ShareLink \<times> Tables" where
  "createShareLink uuid1 uuid2 now file_id user_id expires pub emails t =
     (let newShareLink = \<lparr> ShareLink.id = uuid1, fileId = file_id, userId = user_id, token = uuid2,
                            expiresAt = expires, isPublic = pub, allowedEmails = emails,
                            createdAt = now \<rparr>
      in (newShareLink, t\<lparr>shareLinks := shareLinks t @ [newShareLink]\<rparr>))"

text \<open>\<^verbatim>\<open>getShareLinkByToken(token)\<close>, at the time \<open>now\<close> of its \<^verbatim>\<open>new Date()\<close>. A
  \<^verbatim>\<open>Date\<close> object is truthy, so \<^verbatim>\<open>shareLink.expiresAt && ...\<close> tests for \<^verbatim>\<open>null\<close>, and
  \<^verbatim>\<open>new Date() > shareLink.expiresAt\<close> is false for an Invalid Date.\<close>

definition getShareLinkByToken :: "int \<Rightarrow> string \<Rightarrow> Tables \<Rightarrow> ShareLink option" where
  "getShareLinkByToken now tok t =
     (case find (\<lambda>s. token s = tok) (shareLinks t) of
        None \<Rightarrow> None
      | Some shareLink \<Rightarrow>
          (case expiresAt shareLink of
             None \<Rightarrow> Some shareLink
           | Some d \<Rightarrow> if laterThan now d then None else Some shareLink))"

definition deleteShareLink :: "string \<Rightarrow> string \<Rightarrow> Tables \<Rightarrow> error + Tables" where
  "deleteShareLink shareLinkId user_id t =
     (let shareLinkIndex =
            findIndex (\<lambda>s. ShareLink.id s = shareLinkId \<and> ShareLink.userId s = user_id) (shareLinks t) in
      if shareLinkIndex = - 1 then Inl ShareLinkNotFound
      else Inr (t\<lparr>shareLinks := splice1 shareLinkIndex (shareLinks t)\<rparr>))"

section \<open>Paths of the local storage\<close>

text \<open>
  \<^verbatim>\<open>path.join\<close> of Node, on POSIX, for an absolute first argument: the arguments are
  joined with a slash and the result is normalised segment by segment. An empty
  segment and \<^verbatim>\<open>.\<close> are dropped, \<^verbatim>\<open>..\<close> removes the segment before it, and at the
  top of an absolute path it is dropped. An absolute path is the list of its
  segments; a trailing slash is not kept.
\<close>

type_synonym path = "string list"

fun split :: "char \<Rightarrow> string \<Rightarrow> string list" where
  "split sep [] = [[]]"
| "split sep (c # cs) =
     (if c = sep then [] # split sep cs
      else (case split sep cs of
              [] \<Rightarrow> [[c]]
            | seg # segs \<Rightarrow> (c # seg) # segs))"

fun normalizeSegs :: "path \<Rightarrow> string list \<Rightarrow> path" where
  "normalizeSegs res [] = res"
| "normalizeSegs res (seg # segs) =
     (if seg = [] \<or> seg = ''.'' then normalizeSegs res segs
      else if seg = ''..'' then normalizeSegs (butlast res) segs
      else normalizeSegs (res @ [seg]) segs)"

definition path_join :: "path \<Rightarrow> string \<Rightarrow> path" where
  "path_join base rel = normalizeSegs [] (base @ split CHR ''/'' rel)"

section \<open>StorageService\<close>

datatype StorageType = Local | S3 | R2

text \<open>The configuration read at start-up, and \<^verbatim>\<open>process.cwd()\<close>.\<close>

record Env =
  storageType :: StorageType
  cwd :: path

text \<open>
  The state of the storage service: the module-level \<^verbatim>\<open>userStorageUsage\<close>, the
  regular files of the local disk by absolute path, and the objects of the bucket by
  key. Directories are not recorded: \<^verbatim>\<open>mkdirSync(dirPath, {recursive: true})\<close> makes
  every directory a write needs.
\<close>

record Storage =
  userStorageUsage :: "string \<rightharpoonup> int"
  disk :: "path \<rightharpoonup> 8 word list"
  bucket :: "string \<rightharpoonup> 8 word list"

record StorageUsage =
  usedBytes :: int
  totalBytes :: int

text \<open>The constructor: \<^verbatim>\<open>s3Client\<close> is set for the two object-storage types, and
  \<^verbatim>\<open>localStoragePath = path.join(process.cwd(), 'uploads')\<close>.\<close>

definition s3Client :: "Env \<Rightarrow> bool" where
  "s3Client env = (storageType env = S3 \<or> storageType env = R2)"

definition localStoragePath :: "Env \<Rightarrow> path" where
  "localStoragePath env = path_join (cwd env) ''uploads''"

text \<open>\<^verbatim>\<open>getUserStorageUsage\<close>; the percentage, a floating-point quotient, is left out.\<close>

definition getUserStorageUsage :: "string \<Rightarrow> Storage \<Rightarrow> StorageUsage" where
  "getUserStorageUsage user_id s =
     \<lparr> usedBytes = (case userStorageUsage s user_id of
                      None \<Rightarrow> 0
                    | Some u \<Rightarrow> if u = 0 then 0 else u),
       totalBytes = 10 * 1024 * 1024 * 1024 \<rparr>"

definition updateUserStorageUsage :: "string \<Rightarrow> int \<Rightarrow> Storage \<Rightarrow> Storage" where
  "updateUserStorageUsage user_id sizeChange s =
     (let u0 = (case userStorageUsage s user_id of
                  None \<Rightarrow> 0
                | Some u \<Rightarrow> if u = 0 then 0 else u);
          u1 = u0 + sizeChange;
          u2 = (if u1 < 0 then 0 else u1)
      in s\<lparr>userStorageUsage := (userStorageUsage s)(user_id \<mapsto> u2)\<rparr>)"

text \<open>\<^verbatim>\<open>getFileSize\<close>: the size from \<^verbatim>\<open>stat\<close>, \<open>0\<close> when \<^verbatim>\<open>stat\<close> throws, and \<open>0\<close>
  for every object-storage type.\<close>

definition getFileSize :: "Env \<Rightarrow> string \<Rightarrow> Storage \<Rightarrow> int" where
  "getFileSize env fileKey s =
     (if storageType env = Local then
        (case disk s (path_join (localStoragePath env) fileKey) of
           Some bytes \<Rightarrow> int (length bytes)
         | None \<Rightarrow> 0)
      else 0)"

text \<open>
  The calls of the medium. Each takes a flag \<open>fault\<close>: the medium is unreachable and
  the call (\<^verbatim>\<open>s3Client.send\<close>, \<^verbatim>\<open>writeFile\<close>, \<^verbatim>\<open>readFile\<close>, \<^verbatim>\<open>unlink\<close>) throws. A
  method returns its result, or the error thrown, together with the state at that
  point: what was written before a throw stays written.
\<close>

definition uploadToS3 ::
  "Env \<Rightarrow> bool \<Rightarrow> 8 word list \<Rightarrow> string \<Rightarrow> Storage \<Rightarrow> (error + string) \<times> Storage" where
  "uploadToS3 env fault fileBuffer fileKey s =
     (if \<not> s3Client env then (Inl S3ClientNotInitialized, s)
      else if fault then (Inl IOError, s)
      else (Inr fileKey, s\<lparr>bucket := (bucket s)(fileKey \<mapsto> fileBuffer)\<rparr>))"

definition getFromS3 :: "Env \<Rightarrow> bool \<Rightarrow> string \<Rightarrow> Storage \<Rightarrow> error + 8 word list" where
  "getFromS3 env fault fileKey s =
     (if \<not> s3Client env then Inl S3ClientNotInitialized
      else if fault then Inl IOError
      else (case bucket s fileKey of None \<Rightarrow> Inl IOError | Some bytes \<Rightarrow> Inr bytes))"

text \<open>\<^verbatim>\<open>DeleteObject\<close> answers success for a key that has no object.\<close>

definition deleteFromS3 :: "Env \<Rightarrow> bool \<Rightarrow> string \<Rightarrow> Storage \<Rightarrow> (error + unit) \<times> Storage" where
  "deleteFromS3 env fault fileKey s =
     (if \<not> s3Client env then (Inl S3ClientNotInitialized, s)
      else if fault then (Inl IOError, s)
      else (Inr (), s\<lparr>bucket := (bucket s)(fileKey := None)\<rparr>))"

definition uploadToLocalStorage ::
  "Env \<Rightarrow> bool \<Rightarrow> 8 word list \<Rightarrow> string \<Rightarrow> Storage \<Rightarrow> (error + string) \<times> Storage" where
  "uploadToLocalStorage env fault fileBuffer fileKey s =
     (let filePath = path_join (localStoragePath env) fileKey in
      if fault then (Inl IOError, s)
      else (Inr fileKey, s\<lparr>disk := (disk s)(filePath \<mapsto> fileBuffer)\<rparr>))"

text \<open>\<^verbatim>\<open>readFile\<close> and \<^verbatim>\<open>unlink\<close> throw \<^verbatim>\<open>ENOENT\<close> for a path that has no file.\<close>

definition getFromLocalStorage :: "Env \<Rightarrow> bool \<Rightarrow> string \<Rightarrow> Storage \<Rightarrow> error + 8 word list" where
  "getFromLocalStorage env fault fileKey s =
     (let filePath = path_join (localStoragePath env) fileKey in
      if fault then Inl IOError
      else (case disk s filePath of None \<Rightarrow> Inl IOError | Some bytes \<Rightarrow> Inr bytes))"

definition deleteFromLocalStorage ::
  "Env \<Rightarrow> bool \<Rightarrow> string \<Rightarrow> Storage \<Rightarrow> (error + unit) \<times> Storage" where
  "deleteFromLocalStorage env fault fileKey s =
     (let filePath = path_join (localStoragePath env) fileKey in
      if fault then (Inl IOError, s)
      else (case disk s filePath of
              None \<Rightarrow> (Inl IOError, s)
            | Some bytes \<Rightarrow> (Inr (), s\<lparr>disk := (disk s)(filePath := None)\<rparr>)))"

text \<open>\<^verbatim>\<open>uploadFile(fileBuffer, {userId, filename, contentType})\<close>, with the
  \<^verbatim>\<open>uuidv4()\<close> of the key as an input. The usage is updated before the medium is
  called.\<close>

definition StorageService_uploadFile ::
  "Env \<Rightarrow> bool \<Rightarrow> string \<Rightarrow> 8 word list \<Rightarrow> string \<Rightarrow> string \<Rightarrow> Storage \<Rightarrow> (error + string) \<times> Storage" where
  "StorageService_uploadFile env fault uuid fileBuffer user_id filename s =
     (let fileKey = user_id @ ''/'' @ uuid @ ''-'' @ filename;
          s1 = updateUserStorageUsage user_id (int (length fileBuffer)) s
      in if storageType env = S3 \<or> storageType env = R2
         then uploadToS3 env fault fileBuffer fileKey s1
         else uploadToLocalStorage env fault fileBuffer fileKey s1)"

definition StorageService_getFile :: "Env \<Rightarrow> bool \<Rightarrow> string \<Rightarrow> Storage \<Rightarrow> error + 8 word list" where
  "StorageService_getFile env fault fileKey s =
     (if storageType env = S3 \<or> storageType env = R2
      then getFromS3 env fault fileKey s
      else getFromLocalStorage env fault fileKey s)"

text \<open>\<^verbatim>\<open>deleteFile(fileKey)\<close>: the user is \<^verbatim>\<open>fileKey.split('/')[0]\<close>.\<close>

definition StorageService_deleteFile ::
  "Env \<Rightarrow> bool \<Rightarrow> string \<Rightarrow> Storage \<Rightarrow> (error + unit) \<times> Storage" where
  "StorageService_deleteFile env fault fileKey s =
     (let user_id = (case split CHR ''/'' fileKey of [] \<Rightarrow> [] | seg # segs \<Rightarrow> seg);
          fileSize = getFileSize env fileKey s;
          s1 = updateUserStorageUsage user_id (- fileSize) s
      in if storageType env = S3 \<or> storageType env = R2
         then deleteFromS3 env fault fileKey s1
         else deleteFromLocalStorage env fault fileKey s1)"

section \<open>FileController\<close>

text \<open>
  The request handlers that join the two services. A handler returns the HTTP status
  with the message of the response, and the state it leaves; every exception of a
  service is caught by the handler and answered with status 500.
\<close>

record World =
  tables :: Tables
  storage :: Storage

datatype Response = Response nat string

text \<open>The file of the request, as the upload middleware hands it over.\<close>

record UploadedFile =
  originalname :: string
  mimetype :: string
  size :: int
  buffer :: "8 word list"

text \<open>\<^verbatim>\<open>req.user?.id\<close> passes the test \<^verbatim>\<open>!userId\<close> when it is a non-empty
  string.\<close>

definition authenticated :: "string option \<Rightarrow> string option" where
  "authenticated user = (case user of None \<Rightarrow> None | Some u \<Rightarrow> if u = [] then None else Some u)"

definition FileController_uploadFile ::
  "Env \<Rightarrow> bool \<Rightarrow> string \<Rightarrow> string \<Rightarrow> int \<Rightarrow> string option \<Rightarrow> UploadedFile option \<Rightarrow> string option
     \<Rightarrow> World \<Rightarrow> Response \<times> World" where
  "FileController_uploadFile env fault uuidKey uuidFile now user reqFile bodyFolderId w =
     (case authenticated user of
        None \<Rightarrow> (Response 401 ''Unauthorized'', w)
      | Some user_id \<Rightarrow>
      case reqFile of
        None \<Rightarrow> (Response 400 ''No file uploaded'', w)
      | Some f \<Rightarrow>
          let storageUsage = getUserStorageUsage user_id (storage w)
          in if usedBytes storageUsage + UploadedFile.size f > totalBytes storageUsage
             then (Response 400 ''Storage quota exceeded'', w)
             else
               case StorageService_uploadFile env fault uuidKey (buffer f) user_id (originalname f)
                      (storage w) of
                 (Inl e, s') \<Rightarrow> (Response 500 ''Failed to upload file'', w\<lparr>storage := s'\<rparr>)
               | (Inr fileKey, s') \<Rightarrow>
                   let (file, t') = createFile uuidFile now
                         \<lparr> fd_userId = user_id, fd_name = originalname f,
                           fd_size = UploadedFile.size f, fd_mimeType = mimetype f,
                           fd_key = fileKey,
                           fd_folderId = (case bodyFolderId of
                                            None \<Rightarrow> None
                                          | Some i \<Rightarrow> if i = [] then None else Some i) \<rparr>
                         (tables w)
                   in (Response 201 ''success'', \<lparr> tables = t', storage = s' \<rparr>))"

definition FileController_deleteFile ::
  "Env \<Rightarrow> bool \<Rightarrow> string option \<Rightarrow> string \<Rightarrow> World \<Rightarrow> Response \<times> World" where
  "FileController_deleteFile env fault user file_id w =
     (case authenticated user of
        None \<Rightarrow> (Response 401 ''Unauthorized'', w)
      | Some user_id \<Rightarrow>
      case getFileById file_id user_id (tables w) of
        None \<Rightarrow> (Response 404 ''File not found'', w)
      | Some file \<Rightarrow>
          (case StorageService_deleteFile env fault (key file) (storage w) of
             (Inl e, s') \<Rightarrow> (Response 500 ''Failed to delete file'', w\<lparr>storage := s'\<rparr>)
           | (Inr u, s') \<Rightarrow>
               (case deleteFile file_id (tables w) of
                  Inl e \<Rightarrow> (Response 500 ''Failed to delete file'', w\<lparr>storage := s'\<rparr>)
                | Inr t' \<Rightarrow> (Response 200 ''File deleted successfully'',
                             \<lparr> tables = t', storage = s' \<rparr>))))"

definition FileController_deleteFolder ::
  "nat \<Rightarrow> string option \<Rightarrow> string \<Rightarrow> World \<Rightarrow> Response \<times> World" where
  "FileController_deleteFolder stack user folder_id w =
     (case authenticated user of
        None \<Rightarrow> (Response 401 ''Unauthorized'', w)
      | Some user_id \<Rightarrow>
      case getFolderById folder_id user_id (tables w) of
        None \<Rightarrow> (Response 404 ''Folder not found'', w)
      | Some folder \<Rightarrow>
          (case deleteFolder stack folder_id user_id (tables w) of
             Inl e \<Rightarrow> (Response 500 ''Failed to delete folder'', w)
           | Inr t' \<Rightarrow> (Response 200 ''Folder deleted successfully'', w\<lparr>tables := t'\<rparr>)))"

section \<open>The validity of a share link\<close>

text \<open>
  The specification's words: a share link is valid iff \<^verbatim>\<open>expiresAt == null || expiresAt > now\<close>.
  For an Invalid Date neither disjunct holds.
\<close>

definition spec_valid :: "int \<Rightarrow> ShareLink \<Rightarrow> bool" where
  "spec_valid now link =
     (case expiresAt link of
        None \<Rightarrow> True
      | Some (Time e) \<Rightarrow> e > now
      | Some InvalidDate \<Rightarrow> False)"


section \<open>Paths under the storage root\<close>

text \<open>A path that \<^verbatim>\<open>path.join\<close> leaves as it is: no segment is empty, \<^verbatim>\<open>.\<close> or
  \<^verbatim>\<open>..\<close>. \<^verbatim>\<open>process.cwd()\<close> is such a path.\<close>

definition normalized :: "path \<Rightarrow> bool" where
  "normalized p = list_all (\<lambda>seg. seg \<noteq> [] \<and> seg \<noteq> ''.'' \<and> seg \<noteq> ''..'') p"

text \<open>A path lies under the storage root when the root's segments begin it.\<close>

definition underRoot :: "Env \<Rightarrow> path \<Rightarrow> bool" where
  "underRoot env p = prefix (localStoragePath env) p"

section \<open>The bytes of an owner's files\<close>

definition liveBytes :: "string \<Rightarrow> Tables \<Rightarrow> int" where
  "liveBytes user_id t = sum_list (map File.size (filter (\<lambda>f. File.userId f = user_id) (files t)))"

section \<open>Example states\<close>

text \<open>One user \<open>u\<close> with a folder \<open>A\<close>, its subfolder \<open>B\<close>, a file \<open>X\<close> of five bytes in
  \<open>A\<close>, and a share link of \<open>X\<close> that expires at time 5.\<close>

definition exLink :: ShareLink where
  "exLink = \<lparr> ShareLink.id = ''L'', fileId = ''X'', userId = ''u'', token = ''tok'',
               expiresAt = Some (Time 5), isPublic = True, allowedEmails = [], createdAt = 1 \<rparr>"

text \<open>A second link of \<open>X\<close>, made from a request whose \<^verbatim>\<open>expiresAt\<close> was not a date.\<close>

definition invalidDateLink :: ShareLink where
  "invalidDateLink = \<lparr> ShareLink.id = ''M'', fileId = ''X'', userId = ''u'', token = ''tok2'',
                        expiresAt = Some InvalidDate, isPublic = True, allowedEmails = [],
                        createdAt = 2 \<rparr>"

definition exFolderA :: Folder where
  "exFolderA = \<lparr> Folder.id = ''A'', userId = ''u'', name = ''docs'', parentId = None,
                  createdAt = 1, updatedAt = 1 \<rparr>"

definition exFolderB :: Folder where
  "exFolderB = \<lparr> Folder.id = ''B'', userId = ''u'', name = ''sub'', parentId = Some ''A'',
                  createdAt = 2, updatedAt = 2 \<rparr>"

definition exFile :: File where
  "exFile = \<lparr> File.id = ''X'', userId = ''u'', name = ''a.txt'', size = 5,
               mimeType = ''text/plain'', key = ''u/k1-a.txt'', folderId = Some ''A'',
               createdAt = 3, updatedAt = 3 \<rparr>"

definition exTables :: Tables where
  "exTables = \<lparr> files = [exFile], folders = [exFolderA, exFolderB], shareLinks = [exLink] \<rparr>"

definition invalidDateTables :: Tables where
  "invalidDateTables = exTables\<lparr>shareLinks := [exLink, invalidDateLink]\<rparr>"

text \<open>A local and an object-storage configuration, an empty storage, and a disk with one
  file beside the storage root.\<close>

definition localEnv :: Env where
  "localEnv = \<lparr> storageType = Local, cwd = [''srv'', ''app''] \<rparr>"

definition emptyStorage :: Storage where
  "emptyStorage = \<lparr> userStorageUsage = Map.empty, disk = Map.empty, bucket = Map.empty \<rparr>"

definition secretStorage :: Storage where
  "secretStorage = emptyStorage\<lparr>disk := [[''srv'', ''app'', ''secret''] \<mapsto> [1, 2, 3]]\<rparr>"

definition s3Env :: Env where
  "s3Env = \<lparr> storageType = S3, cwd = [''srv'', ''app''] \<rparr>"

text \<open>
  A run of the handlers on the local configuration: the user \<open>u\<close> creates the folder
  \<open>A\<close>, uploads the five bytes of \<^verbatim>\<open>a.txt\<close> into it, and shares the file.
\<close>

definition emptyWorld :: World where
  "emptyWorld = \<lparr> tables = \<lparr> files = [], folders = [], shareLinks = [] \<rparr>, storage = emptyStorage \<rparr>"

definition exUpload :: UploadedFile where
  "exUpload = \<lparr> originalname = ''a.txt'', mimetype = ''text/plain'', size = 5,
                 buffer = [1, 2, 3, 4, 5] \<rparr>"

definition worldWithFolder :: World where
  "worldWithFolder =
     emptyWorld\<lparr>tables := snd (createFolder ''A'' 1 ''u'' ''docs'' None (tables emptyWorld))\<rparr>"

definition worldAfterUpload :: World where
  "worldAfterUpload =
     snd (FileController_uploadFile localEnv False ''k1'' ''X'' 3 (Some ''u'') (Some exUpload)
            (Some ''A'') worldWithFolder)"

definition worldAfterShare :: World where
  "worldAfterShare =
     worldAfterUpload\<lparr>tables :=
       snd (createShareLink ''L'' ''tok'' 4 ''X'' ''u'' (Some (Time 5)) True [] (tables worldAfterUpload))\<rparr>"

section \<open>Properties of the array primitives\<close>

lemma findIndex_ge: "- 1 \<le> findIndex P xs"
  by (induction xs) (auto simp: Let_def)

lemma findIndex_none: "(findIndex P xs = - 1) = (\<forall>x \<in> set xs. \<not> P x)"
proof (induction xs)
  case Nil
  show ?case by simp
next
  case (Cons x xs)
  have "- 1 \<le> findIndex P xs" by (rule findIndex_ge)
  then have "findIndex P xs + 1 \<noteq> - 1" by arith
  with Cons show ?case by (auto simp: Let_def)
qed

lemma findIndex_found:
  assumes "findIndex P xs \<noteq> - 1"
  shows "0 \<le> findIndex P xs \<and> nat (findIndex P xs) < length xs \<and> P (xs ! nat (findIndex P xs))"
  using assms
proof (induction xs)
  case Nil
  then show ?case by simp
next
  case (Cons x xs)
  show ?case
  proof (cases "P x")
    case True
    then show ?thesis by simp
  next
    case False
    with Cons.prems have ne: "findIndex P xs \<noteq> - 1" by (auto simp: Let_def split: if_splits)
    from Cons.IH [OF ne] have ih: "0 \<le> findIndex P xs" "nat (findIndex P xs) < length xs"
      "P (xs ! nat (findIndex P xs))" by auto
    have eq: "findIndex P (x # xs) = findIndex P xs + 1" using False ne by (simp add: Let_def)
    have "nat (findIndex P xs + 1) = Suc (nat (findIndex P xs))" using ih(1) by arith
    with ih eq show ?thesis by simp
  qed
qed

lemma find_findIndex:
  "find P xs = (if findIndex P xs = - 1 then None else Some (xs ! nat (findIndex P xs)))"
proof (induction xs)
  case Nil
  show ?case by simp
next
  case (Cons x xs)
  show ?case
  proof (cases "P x")
    case True
    then show ?thesis by simp
  next
    case False
    have ge: "- 1 \<le> findIndex P xs" by (rule findIndex_ge)
    show ?thesis
    proof (cases "findIndex P xs = - 1")
      case True
      with False Cons show ?thesis by (simp add: Let_def)
    next
      case ne: False
      with ge have "0 \<le> findIndex P xs" by arith
      then have "nat (findIndex P xs + 1) = Suc (nat (findIndex P xs))" by arith
      moreover have "findIndex P xs + 1 \<noteq> - 1" using ge by arith
      ultimately show ?thesis using False ne Cons by (simp add: Let_def)
    qed
  qed
qed

lemma indices_enumerate:
  "filter (\<lambda>index. index \<noteq> - 1) (map (\<lambda>(index, x). if P x then int index else - 1) (enumerate k xs))
     = map int (filter (\<lambda>i. P (xs ! (i - k))) [k..<k + length xs])"
proof (induction xs arbitrary: k)
  case Nil
  show ?case by simp
next
  case (Cons x xs)
  have tl: "filter (\<lambda>i. P ((x # xs) ! (i - k))) [Suc k..<Suc k + length xs]
      = filter (\<lambda>i. P (xs ! (i - Suc k))) [Suc k..<Suc k + length xs]"
  proof (rule filter_cong)
    fix i assume "i \<in> set [Suc k..<Suc k + length xs]"
    then have "i - k = Suc (i - Suc k)" by auto
    then show "P ((x # xs) ! (i - k)) = P (xs ! (i - Suc k))" by simp
  qed simp
  have upt: "[k..<k + length (x # xs)] = k # [Suc k..<Suc k + length xs]"
    using upt_conv_Cons [of k "k + length (x # xs)"] by (simp del: upt_Suc)
  have "int k \<noteq> - 1" by simp
  then show ?case
    unfolding upt using Cons [of "Suc k"] tl by simp
qed

lemma matchingIndices_eq:
  "matchingIndices P xs = rev (map int (filter (\<lambda>i. P (xs ! i)) [0..<length xs]))"
proof -
  have "sorted (map int (filter (\<lambda>i. P (xs ! i)) [0..<length xs]))"
    by (simp add: sorted_map sorted_wrt_filter)
  then show ?thesis
    unfolding matchingIndices_def using indices_enumerate [of P 0 xs]
    by (simp add: sorted_sort_id)
qed

lemma splice1_append:
  "0 \<le> i \<Longrightarrow> nat i < length xs \<Longrightarrow> splice1 i (xs @ ys) = splice1 i xs @ ys"
  by (simp add: splice1_def)

lemma length_splice1: "0 \<le> i \<Longrightarrow> nat i < length xs \<Longrightarrow> length (splice1 i xs) = length xs - 1"
  by (simp add: splice1_def)

lemma spliceAll_append:
  "sorted (rev is) \<Longrightarrow> distinct is \<Longrightarrow> \<forall>i \<in> set is. 0 \<le> i \<and> nat i < length xs
     \<Longrightarrow> spliceAll is (xs @ ys) = spliceAll is xs @ ys"
proof (induction "is" arbitrary: xs)
  case Nil
  show ?case by (simp add: spliceAll_def)
next
  case (Cons i "is")
  have i: "0 \<le> i" "nat i < length xs" using Cons.prems by auto
  have below: "\<forall>j \<in> set is. 0 \<le> j \<and> nat j < length (splice1 i xs)"
  proof
    fix j assume j: "j \<in> set is"
    then have "j \<le> i" using Cons.prems(1) by (auto simp: sorted_append)
    moreover have "j \<noteq> i" using Cons.prems(2) j by auto
    moreover have "0 \<le> j" using Cons.prems(3) j by auto
    ultimately show "0 \<le> j \<and> nat j < length (splice1 i xs)"
      using i by (simp add: length_splice1)
  qed
  have "spliceAll is (splice1 i xs @ ys) = spliceAll is (splice1 i xs) @ ys"
    using Cons.IH [OF _ _ below] Cons.prems by (simp add: sorted_append)
  then show ?case using i by (simp add: spliceAll_def splice1_append)
qed

lemma spliceAll_matching: "spliceAll (matchingIndices P xs) xs = filter (\<lambda>x. \<not> P x) xs"
proof (induction xs rule: rev_induct)
  case Nil
  show ?case by (simp add: matchingIndices_eq spliceAll_def)
next
  case (snoc x xs)
  let ?is = "filter (\<lambda>i. P (xs ! i)) [0..<length xs]"
  have same: "filter (\<lambda>i. P ((xs @ [x]) ! i)) [0..<length xs] = ?is"
    by (rule filter_cong) (auto simp: nth_append)
  have m: "matchingIndices P (xs @ [x]) =
             (if P x then [int (length xs)] else []) @ matchingIndices P xs"
    using same by (simp add: matchingIndices_eq)
  have sorted: "sorted (rev (matchingIndices P xs))" "distinct (matchingIndices P xs)"
    by (simp_all add: matchingIndices_eq sorted_map sorted_wrt_filter distinct_map inj_on_def)
  have bound: "\<forall>i \<in> set (matchingIndices P xs). 0 \<le> i \<and> nat i < length xs"
    by (auto simp: matchingIndices_eq)
  show ?case
  proof (cases "P x")
    case True
    have "splice1 (int (length xs)) (xs @ [x]) = xs" by (simp add: splice1_def)
    with True show ?thesis using snoc m by (simp add: spliceAll_def)
  next
    case False
    have "spliceAll (matchingIndices P (xs @ [x])) (xs @ [x]) = spliceAll (matchingIndices P xs) (xs @ [x])"
      using False m by simp
    also have "\<dots> = spliceAll (matchingIndices P xs) xs @ [x]"
      by (rule spliceAll_append [OF sorted bound])
    finally show ?thesis using False snoc by simp
  qed
qed

section \<open>Updates of files and folders\<close>

lemma findIndex_mem: "x \<in> set xs \<Longrightarrow> P x \<Longrightarrow> findIndex P xs \<noteq> - 1"
  by (auto simp: findIndex_none)

lemma updateFile_found:
  assumes "findIndex (\<lambda>f. File.id f = file_id) (files t) \<noteq> - 1"
  shows "updateFile now file_id newName newFolderId t =
     (let i = nat (findIndex (\<lambda>f. File.id f = file_id) (files t));
          old = files t ! i;
          new = old\<lparr> File.name := (case newName of None \<Rightarrow> File.name old
                                     | Some n \<Rightarrow> if n = [] then File.name old else n),
                     folderId := (case newFolderId of None \<Rightarrow> folderId old | Some fo \<Rightarrow> fo),
                     File.updatedAt := now \<rparr>
      in Inr (new, t\<lparr>files := (files t)[i := new]\<rparr>))"
  using assms by (simp add: updateFile_def Let_def split: option.splits)

lemma updateFolder_found:
  assumes "findIndex (\<lambda>f. Folder.id f = folder_id) (folders t) \<noteq> - 1"
  shows "updateFolder now folder_id newName newParentId t =
     (let i = nat (findIndex (\<lambda>f. Folder.id f = folder_id) (folders t));
          old = folders t ! i;
          new = old\<lparr> Folder.name := (case newName of None \<Rightarrow> Folder.name old
                                       | Some n \<Rightarrow> if n = [] then Folder.name old else n),
                     parentId := (case newParentId of None \<Rightarrow> parentId old | Some p \<Rightarrow> p),
                     Folder.updatedAt := now \<rparr>
      in Inr (new, t\<lparr>folders := (folders t)[i := new]\<rparr>))"
  using assms by (simp add: updateFolder_def Let_def split: option.splits)

text \<open>
  Claim C10. Whenever a file has the id, \<^verbatim>\<open>updateFile\<close> succeeds and replaces exactly
  the first entry with the id, whatever the other tables hold; whenever a folder has
  the id, \<^verbatim>\<open>updateFolder\<close> does the same on the folders. When the name of the request
  is the empty string the stored name stays as it was; \<open>updatedAt\<close> becomes the current
  time; and every field other than the name, the folder or parent id and \<open>updatedAt\<close>
  keeps its value, whatever the request.
\<close>

theorem update_empty_name_ignored:
  "(file_id \<in> File.id ` set (files t) \<longrightarrow>
      (\<exists>i old new. i < length (files t) \<and> old = files t ! i \<and> File.id old = file_id
            \<and> updateFile now file_id newName newFolderId t = Inr (new, t\<lparr>files := (files t)[i := new]\<rparr>)
            \<and> (newName = Some [] \<longrightarrow> File.name new = File.name old)
            \<and> File.updatedAt new = now
            \<and> File.id new = File.id old \<and> File.userId new = File.userId old
            \<and> File.size new = File.size old \<and> mimeType new = mimeType old
            \<and> key new = key old \<and> File.createdAt new = File.createdAt old))
   \<and> (folder_id \<in> Folder.id ` set (folders t') \<longrightarrow>
      (\<exists>j old new. j < length (folders t') \<and> old = folders t' ! j \<and> Folder.id old = folder_id
            \<and> updateFolder now' folder_id newName' newParentId t'
                 = Inr (new, t'\<lparr>folders := (folders t')[j := new]\<rparr>)
            \<and> (newName' = Some [] \<longrightarrow> Folder.name new = Folder.name old)
            \<and> Folder.updatedAt new = now'
            \<and> Folder.id new = Folder.id old \<and> Folder.userId new = Folder.userId old
            \<and> Folder.createdAt new = Folder.createdAt old))"
proof (intro conjI impI)
  let ?P = "\<lambda>f. File.id f = file_id"
  let ?i = "nat (findIndex ?P (files t))"
  let ?old = "files t ! ?i"
  let ?new = "?old\<lparr> File.name := (case newName of None \<Rightarrow> File.name ?old
                                     | Some n \<Rightarrow> if n = [] then File.name ?old else n),
                     folderId := (case newFolderId of None \<Rightarrow> folderId ?old | Some fo \<Rightarrow> fo),
                     File.updatedAt := now \<rparr>"
  assume "file_id \<in> File.id ` set (files t)"
  then have ne: "findIndex ?P (files t) \<noteq> - 1" by (auto simp: findIndex_none)
  note fnd = findIndex_found [OF ne]
  have upd: "updateFile now file_id newName newFolderId t
               = Inr (?new, t\<lparr>files := (files t)[?i := ?new]\<rparr>)"
    using updateFile_found [OF ne] by (simp add: Let_def)
  show "\<exists>i old new. i < length (files t) \<and> old = files t ! i \<and> File.id old = file_id
            \<and> updateFile now file_id newName newFolderId t = Inr (new, t\<lparr>files := (files t)[i := new]\<rparr>)
            \<and> (newName = Some [] \<longrightarrow> File.name new = File.name old)
            \<and> File.updatedAt new = now
            \<and> File.id new = File.id old \<and> File.userId new = File.userId old
            \<and> File.size new = File.size old \<and> mimeType new = mimeType old
            \<and> key new = key old \<and> File.createdAt new = File.createdAt old"
    apply (rule exI [of _ ?i], rule exI [of _ ?old], rule exI [of _ ?new])
    using fnd upd by simp
next
  let ?P = "\<lambda>f. Folder.id f = folder_id"
  let ?j = "nat (findIndex ?P (folders t'))"
  let ?old = "folders t' ! ?j"
  let ?new = "?old\<lparr> Folder.name := (case newName' of None \<Rightarrow> Folder.name ?old
                                       | Some n \<Rightarrow> if n = [] then Folder.name ?old else n),
                     parentId := (case newParentId of None \<Rightarrow> parentId ?old | Some p \<Rightarrow> p),
                     Folder.updatedAt := now' \<rparr>"
  assume "folder_id \<in> Folder.id ` set (folders t')"
  then have ne: "findIndex ?P (folders t') \<noteq> - 1" by (auto simp: findIndex_none)
  note fnd = findIndex_found [OF ne]
  have upd: "updateFolder now' folder_id newName' newParentId t'
               = Inr (?new, t'\<lparr>folders := (folders t')[?j := ?new]\<rparr>)"
    using updateFolder_found [OF ne] by (simp add: Let_def)
  show "\<exists>j old new. j < length (folders t') \<and> old = folders t' ! j \<and> Folder.id old = folder_id
            \<and> updateFolder now' folder_id newName' newParentId t'
                 = Inr (new, t'\<lparr>folders := (folders t')[j := new]\<rparr>)
            \<and> (newName' = Some [] \<longrightarrow> Folder.name new = Folder.name old)
            \<and> Folder.updatedAt new = now'
            \<and> Folder.id new = Folder.id old \<and> Folder.userId new = Folder.userId old
            \<and> Folder.createdAt new = Folder.createdAt old"
    apply (rule exI [of _ ?j], rule exI [of _ ?old], rule exI [of _ ?new])
    using fnd upd by simp
qed

text \<open>The theorem at a table with the file \<open>X\<close> and no folder, and at a table with the
  folder \<open>A\<close> and no file: each update stamps \<open>updatedAt\<close> and keeps the name.\<close>

theorem update_empty_name_ignored_witness:
  "''X'' \<in> File.id ` set (files (exTables\<lparr>folders := []\<rparr>))
     \<and> ''A'' \<in> Folder.id ` set (folders (exTables\<lparr>files := []\<rparr>))
     \<and> (\<exists>i old new. i < length (files (exTables\<lparr>folders := []\<rparr>))
            \<and> old = files (exTables\<lparr>folders := []\<rparr>) ! i \<and> File.id old = ''X''
            \<and> updateFile 9 ''X'' (Some []) None (exTables\<lparr>folders := []\<rparr>)
                 = Inr (new, exTables\<lparr>folders := [],
                               files := (files (exTables\<lparr>folders := []\<rparr>))[i := new]\<rparr>)
            \<and> File.name new = File.name old \<and> File.updatedAt new = 9)
     \<and> (\<exists>j old new. j < length (folders (exTables\<lparr>files := []\<rparr>))
            \<and> old = folders (exTables\<lparr>files := []\<rparr>) ! j \<and> Folder.id old = ''A''
            \<and> updateFolder 8 ''A'' (Some []) None (exTables\<lparr>files := []\<rparr>)
                 = Inr (new, exTables\<lparr>files := [],
                               folders := (folders (exTables\<lparr>files := []\<rparr>))[j := new]\<rparr>)
            \<and> Folder.name new = Folder.name old \<and> Folder.updatedAt new = 8)
     \<and> updateFile 9 ''X'' (Some []) None (exTables\<lparr>folders := []\<rparr>)
         = Inr (exFile\<lparr>File.updatedAt := 9\<rparr>,
                exTables\<lparr>folders := [], files := [exFile\<lparr>File.updatedAt := 9\<rparr>]\<rparr>)
     \<and> updateFolder 8 ''A'' (Some []) None (exTables\<lparr>files := []\<rparr>)
         = Inr (exFolderA\<lparr>Folder.updatedAt := 8\<rparr>,
                exTables\<lparr>files := [], folders := [exFolderA\<lparr>Folder.updatedAt := 8\<rparr>, exFolderB]\<rparr>)"
proof -
  have a: "''X'' \<in> File.id ` set (files (exTables\<lparr>folders := []\<rparr>))"
    and b: "''A'' \<in> Folder.id ` set (folders (exTables\<lparr>files := []\<rparr>))"
    by (simp_all add: exTables_def exFile_def exFolderA_def exFolderB_def)
  have c: "updateFile 9 ''X'' (Some []) None (exTables\<lparr>folders := []\<rparr>)
         = Inr (exFile\<lparr>File.updatedAt := 9\<rparr>,
                exTables\<lparr>folders := [], files := [exFile\<lparr>File.updatedAt := 9\<rparr>]\<rparr>)"
    by (simp add: exTables_def exFile_def updateFile_def Let_def)
  have d: "updateFolder 8 ''A'' (Some []) None (exTables\<lparr>files := []\<rparr>)
         = Inr (exFolderA\<lparr>Folder.updatedAt := 8\<rparr>,
                exTables\<lparr>files := [], folders := [exFolderA\<lparr>Folder.updatedAt := 8\<rparr>, exFolderB]\<rparr>)"
    by (simp add: exTables_def exFolderA_def exFolderB_def updateFolder_def Let_def)
  note inst = update_empty_name_ignored [where file_id = "''X''" and t = "exTables\<lparr>folders := []\<rparr>"
      and now = 9 and newName = "Some []" and newFolderId = None
      and folder_id = "''A''" and t' = "exTables\<lparr>files := []\<rparr>"
      and now' = 8 and newName' = "Some []" and newParentId = None]
  have e: "\<exists>i old new. i < length (files (exTables\<lparr>folders := []\<rparr>))
            \<and> old = files (exTables\<lparr>folders := []\<rparr>) ! i \<and> File.id old = ''X''
            \<and> updateFile 9 ''X'' (Some []) None (exTables\<lparr>folders := []\<rparr>)
                 = Inr (new, exTables\<lparr>folders := [],
                               files := (files (exTables\<lparr>folders := []\<rparr>))[i := new]\<rparr>)
            \<and> File.name new = File.name old \<and> File.updatedAt new = 9"
    using inst a by fastforce
  have f: "\<exists>j old new. j < length (folders (exTables\<lparr>files := []\<rparr>))
            \<and> old = folders (exTables\<lparr>files := []\<rparr>) ! j \<and> Folder.id old = ''A''
            \<and> updateFolder 8 ''A'' (Some []) None (exTables\<lparr>files := []\<rparr>)
                 = Inr (new, exTables\<lparr>files := [],
                               folders := (folders (exTables\<lparr>files := []\<rparr>))[j := new]\<rparr>)
            \<and> Folder.name new = Folder.name old \<and> Folder.updatedAt new = 8"
    using inst b by fastforce
  show ?thesis using a b c d e f by blast
qed

section \<open>Resolving a share link\<close>







text \<open>The same for an Invalid Date: the link is returned at every time, and no time
  makes it valid in the specification's sense.\<close>

lemma getShareLinkByToken_invalid_date:
  "getShareLinkByToken now ''tok2'' invalidDateTables = Some invalidDateLink
     \<and> \<not> spec_valid now invalidDateLink"
  by (simp add: invalidDateTables_def exTables_def exLink_def invalidDateLink_def spec_valid_def
      getShareLinkByToken_def)

section \<open>Creating a folder\<close>

text \<open>Claim C6 as stated fails: no folder \<open>missing\<close> exists, and the folder is created
  under it.\<close>

theorem createFolder_unchecked_parent_counterexample:
  "getFolderById ''missing'' ''u'' exTables = None
     \<and> folders (snd (createFolder ''C'' 7 ''u'' ''new'' (Some ''missing'') exTables))
         = [exFolderA, exFolderB,
            \<lparr> Folder.id = ''C'', userId = ''u'', name = ''new'', parentId = Some ''missing'',
              createdAt = 7, updatedAt = 7 \<rparr>]"
  by (simp add: exTables_def exFolderA_def exFolderB_def getFolderById_def createFolder_def Let_def)

lemma find_append_fresh: "find P xs = None \<Longrightarrow> find P (xs @ [x]) = (if P x then Some x else None)"
  by (induction xs) auto

text \<open>
  Claim C6, as amended. \<^verbatim>\<open>createFolder\<close> never fails and never looks the parent up: for
  every \<open>parentId\<close>, \<^verbatim>\<open>null\<close> or not, existing or not, it appends a folder with the given
  owner, name and parent, and with a fresh id the folder is found by
  \<^verbatim>\<open>getFolderById\<close> afterwards.
\<close>

theorem createFolder_always_creates:
  assumes "uuid \<notin> Folder.id ` set (folders t)"
  shows "createFolder uuid now user_id folderName parent t
           = (\<lparr> Folder.id = uuid, userId = user_id, name = folderName, parentId = parent,
                 createdAt = now, updatedAt = now \<rparr>,
              t\<lparr>folders := folders t @ [\<lparr> Folder.id = uuid, userId = user_id, name = folderName,
                   parentId = parent, createdAt = now, updatedAt = now \<rparr>]\<rparr>)
         \<and> getFolderById uuid user_id (snd (createFolder uuid now user_id folderName parent t))
             = Some (fst (createFolder uuid now user_id folderName parent t))"
proof -
  have "find (\<lambda>f. Folder.id f = uuid \<and> Folder.userId f = user_id) (folders t) = None"
    using assms by (auto simp: find_None_iff)
  then show ?thesis
    by (simp add: createFolder_def getFolderById_def find_append_fresh Let_def)
qed

theorem createFolder_always_creates_witness:
  "''C'' \<notin> Folder.id ` set (folders exTables)
     \<and> getFolderById ''missing'' ''u'' exTables = None
     \<and> getFolderById ''C'' ''u'' (snd (createFolder ''C'' 7 ''u'' ''new'' (Some ''missing'') exTables))
         = Some \<lparr> Folder.id = ''C'', userId = ''u'', name = ''new'', parentId = Some ''missing'',
                  createdAt = 7, updatedAt = 7 \<rparr>"
  using createFolder_always_creates [of "''C''" exTables 7 "''u''" "''new''" "Some ''missing''"]
  by (simp add: exTables_def exFolderA_def exFolderB_def getFolderById_def)

section \<open>Moving a folder\<close>

text \<open>Claim C2 as stated fails: \<open>B\<close> is a child of \<open>A\<close>, and \<open>A\<close> is moved under \<open>B\<close>, and
  under itself, with success.\<close>

theorem updateFolder_cycle_counterexample:
  "parentId exFolderB = Some ''A''
     \<and> updateFolder 9 ''A'' None (Some (Some ''B'')) exTables
         = Inr (exFolderA\<lparr>parentId := Some ''B'', Folder.updatedAt := 9\<rparr>,
                exTables\<lparr>folders := [exFolderA\<lparr>parentId := Some ''B'', Folder.updatedAt := 9\<rparr>,
                                      exFolderB]\<rparr>)
     \<and> updateFolder 9 ''A'' None (Some (Some ''A'')) exTables
         = Inr (exFolderA\<lparr>parentId := Some ''A'', Folder.updatedAt := 9\<rparr>,
                exTables\<lparr>folders := [exFolderA\<lparr>parentId := Some ''A'', Folder.updatedAt := 9\<rparr>,
                                      exFolderB]\<rparr>)"
  by (simp add: exTables_def exFolderA_def exFolderB_def updateFolder_def Let_def)

text \<open>What the cycle does to the cascade: on the folders left by that move,
  \<^verbatim>\<open>getAllSubfolderIds\<close> exhausts every call stack, and the folder delete ends in the
  \<^verbatim>\<open>RangeError\<close>.\<close>

lemma cycle_exhausts_stack:
  "getAllSubfolderIds stack
     [exFolderA\<lparr>parentId := Some ''B'', Folder.updatedAt := 9\<rparr>, exFolderB] ''A'' = None
   \<and> getAllSubfolderIds stack
     [exFolderA\<lparr>parentId := Some ''B'', Folder.updatedAt := 9\<rparr>, exFolderB] ''B'' = None"
proof (induction stack)
  case 0
  show ?case by simp
next
  case (Suc n)
  then show ?case by (simp add: exFolderA_def exFolderB_def)
qed

lemma deleteFolder_on_cycle:
  "deleteFolder stack ''A'' ''u''
     (exTables\<lparr>folders := [exFolderA\<lparr>parentId := Some ''B'', Folder.updatedAt := 9\<rparr>, exFolderB]\<rparr>)
     = Inl RangeError"
  using cycle_exhausts_stack [of stack]
  by (simp add: deleteFolder_def exFolderA_def exTables_def)

text \<open>
  Claim C2, as amended. \<^verbatim>\<open>updateFolder\<close> has no hierarchy check. It fails, with
  \<^verbatim>\<open>Folder not found\<close> and before any write, exactly when no folder has the id; for
  an existing folder it succeeds and stores the parent of the request as it is given,
  also when that is the folder itself or one of its descendants.
\<close>

theorem updateFolder_stores_any_parent:
  "(folder_id \<notin> Folder.id ` set (folders t)
      \<longrightarrow> updateFolder now folder_id newName (Some p) t = Inl FolderNotFound)
   \<and> (folder_id \<in> Folder.id ` set (folders t)
      \<longrightarrow> (\<exists>j new. j < length (folders t) \<and> Folder.id (folders t ! j) = folder_id
             \<and> updateFolder now folder_id newName (Some p) t
                  = Inr (new, t\<lparr>folders := (folders t)[j := new]\<rparr>)
             \<and> parentId new = p \<and> Folder.id new = folder_id))"
proof (intro conjI impI)
  assume "folder_id \<notin> Folder.id ` set (folders t)"
  then have "findIndex (\<lambda>f. Folder.id f = folder_id) (folders t) = - 1"
    by (auto simp: findIndex_none)
  then show "updateFolder now folder_id newName (Some p) t = Inl FolderNotFound"
    by (simp add: updateFolder_def)
next
  let ?P = "\<lambda>f. Folder.id f = folder_id"
  let ?j = "nat (findIndex ?P (folders t))"
  let ?old = "folders t ! ?j"
  let ?new = "?old\<lparr> Folder.name := (case newName of None \<Rightarrow> Folder.name ?old
                                       | Some n \<Rightarrow> if n = [] then Folder.name ?old else n),
                     parentId := p, Folder.updatedAt := now \<rparr>"
  assume "folder_id \<in> Folder.id ` set (folders t)"
  then have ne: "findIndex ?P (folders t) \<noteq> - 1" by (auto simp: findIndex_none)
  note fnd = findIndex_found [OF ne]
  have upd: "updateFolder now folder_id newName (Some p) t
               = Inr (?new, t\<lparr>folders := (folders t)[?j := ?new]\<rparr>)"
    using updateFolder_found [OF ne] by (simp add: Let_def)
  show "\<exists>j new. j < length (folders t) \<and> Folder.id (folders t ! j) = folder_id
             \<and> updateFolder now folder_id newName (Some p) t
                  = Inr (new, t\<lparr>folders := (folders t)[j := new]\<rparr>)
             \<and> parentId new = p \<and> Folder.id new = folder_id"
    apply (rule exI [of _ ?j], rule exI [of _ ?new])
    using fnd upd by simp
qed

theorem updateFolder_stores_any_parent_witness:
  "''Z'' \<notin> Folder.id ` set (folders exTables)
     \<and> updateFolder 9 ''Z'' None (Some (Some ''A'')) exTables = Inl FolderNotFound
     \<and> ''A'' \<in> Folder.id ` set (folders exTables)
     \<and> (\<exists>j new. j < length (folders exTables) \<and> Folder.id (folders exTables ! j) = ''A''
             \<and> updateFolder 9 ''A'' None (Some (Some ''B'')) exTables
                  = Inr (new, exTables\<lparr>folders := (folders exTables)[j := new]\<rparr>)
             \<and> parentId new = Some ''B'' \<and> Folder.id new = ''A'')"
proof -
  have a: "''Z'' \<notin> Folder.id ` set (folders exTables)"
    and b: "''A'' \<in> Folder.id ` set (folders exTables)"
    by (simp_all add: exTables_def exFolderA_def exFolderB_def)
  show ?thesis
    using a b
      updateFolder_stores_any_parent [of "''Z''" exTables 9 None "Some ''A''"]
      updateFolder_stores_any_parent [of "''A''" exTables 9 None "Some ''B''"]
    by blast
qed

section \<open>Keys of the local storage\<close>

lemma normalizeSegs_normalized: "normalized xs \<Longrightarrow> normalizeSegs res xs = res @ xs"
  by (induction xs arbitrary: res) (auto simp: normalized_def)

lemma normalizeSegs_append:
  "normalizeSegs res (xs @ ys) = normalizeSegs (normalizeSegs res xs) ys"
  by (induction xs arbitrary: res) auto

lemma normalizeSegs_prefix:
  "''..'' \<notin> set ks \<Longrightarrow> prefix res (normalizeSegs res ks)"
proof (induction ks arbitrary: res)
  case Nil
  show ?case by simp
next
  case (Cons k ks)
  then have ih: "\<And>r. prefix r (normalizeSegs r ks)" by simp
  have "prefix res (res @ [k])" by simp
  then have "prefix res (normalizeSegs (res @ [k]) ks)"
    using ih [of "res @ [k]"] by (rule prefix_order.trans)
  with Cons.prems ih [of res] show ?case by auto
qed

lemma localStoragePath_normalized:
  assumes "normalized (cwd env)"
  shows "localStoragePath env = cwd env @ [''uploads'']" and "normalized (localStoragePath env)"
proof -
  have up: "split CHR ''/'' ''uploads'' = [''uploads'']" by simp
  show 1: "localStoragePath env = cwd env @ [''uploads'']"
    using assms by (simp add: localStoragePath_def path_join_def up normalizeSegs_append
        normalizeSegs_normalized del: split.simps)
  show "normalized (localStoragePath env)"
    using assms unfolding 1 by (simp add: normalized_def)
qed

lemma path_join_root:
  assumes "normalized (cwd env)"
  shows "path_join (localStoragePath env) fileKey
           = normalizeSegs (localStoragePath env) (split CHR ''/'' fileKey)"
  using localStoragePath_normalized(2) [OF assms]
  by (simp add: path_join_def normalizeSegs_append normalizeSegs_normalized)

text \<open>
  Claim C7, as amended. The local variant resolves a key with \<^verbatim>\<open>path.join\<close> and neither
  rejects nor rewrites it. For a key without a \<^verbatim>\<open>..\<close> segment the resolved path lies
  under the storage root: a write and a delete leave every path outside the root as it
  was, and a read returns the content of a path under the root.
\<close>

theorem local_key_without_dotdot_under_root:
  assumes "normalized (cwd env)" and "''..'' \<notin> set (split CHR ''/'' fileKey)"
  shows "underRoot env (path_join (localStoragePath env) fileKey)
     \<and> (\<forall>p. \<not> underRoot env p \<longrightarrow>
            disk (snd (uploadToLocalStorage env fault fileBuffer fileKey s)) p = disk s p
          \<and> disk (snd (deleteFromLocalStorage env fault fileKey s)) p = disk s p)
     \<and> (\<forall>bytes. getFromLocalStorage env fault fileKey s = Inr bytes \<longrightarrow>
            (\<exists>p. underRoot env p \<and> disk s p = Some bytes))"
proof -
  have u: "underRoot env (path_join (localStoragePath env) fileKey)"
    unfolding underRoot_def path_join_root [OF assms(1)]
    using assms(2) by (rule normalizeSegs_prefix)
  have w: "\<And>p. \<not> underRoot env p \<Longrightarrow> p \<noteq> path_join (localStoragePath env) fileKey"
    using u by auto
  have "\<And>p. \<not> underRoot env p \<Longrightarrow>
      disk (snd (uploadToLocalStorage env fault fileBuffer fileKey s)) p = disk s p"
    using w by (simp add: uploadToLocalStorage_def Let_def)
  moreover have "\<And>p. \<not> underRoot env p \<Longrightarrow>
      disk (snd (deleteFromLocalStorage env fault fileKey s)) p = disk s p"
    using w by (simp add: deleteFromLocalStorage_def Let_def split: option.splits)
  moreover have "\<And>bytes. getFromLocalStorage env fault fileKey s = Inr bytes \<Longrightarrow>
      \<exists>p. underRoot env p \<and> disk s p = Some bytes"
    using u by (auto simp: getFromLocalStorage_def Let_def split: if_splits option.splits)
  ultimately show ?thesis using u by blast
qed

theorem local_key_without_dotdot_under_root_witness:
  "normalized (cwd localEnv) \<and> ''..'' \<notin> set (split CHR ''/'' ''u/k1-a.txt'')
     \<and> path_join (localStoragePath localEnv) ''u/k1-a.txt'' = [''srv'', ''app'', ''uploads'', ''u'', ''k1-a.txt'']
     \<and> underRoot localEnv (path_join (localStoragePath localEnv) ''u/k1-a.txt'')"
  using local_key_without_dotdot_under_root [of localEnv "''u/k1-a.txt''" False "[]" emptyStorage]
  by (simp add: localEnv_def normalized_def localStoragePath_def path_join_def)

text \<open>Claim C7 as stated fails: a key with \<^verbatim>\<open>..\<close> segments reads a file beside the root,
  and a file name with such segments writes one.\<close>

theorem local_key_escapes_root_counterexample:
  "path_join (localStoragePath localEnv) ''../secret'' = [''srv'', ''app'', ''secret'']
     \<and> \<not> underRoot localEnv [''srv'', ''app'', ''secret'']
     \<and> StorageService_getFile localEnv False ''../secret'' secretStorage = Inr [1, 2, 3]
     \<and> disk (snd (StorageService_uploadFile localEnv False ''k1'' [7] ''u'' ''/../../../etc/x'' emptyStorage))
         [''srv'', ''app'', ''etc'', ''x''] = Some [7]
     \<and> \<not> underRoot localEnv [''srv'', ''app'', ''etc'', ''x'']"
  by (simp add: localEnv_def underRoot_def localStoragePath_def path_join_def secretStorage_def
      emptyStorage_def StorageService_getFile_def getFromLocalStorage_def
      StorageService_uploadFile_def uploadToLocalStorage_def updateUserStorageUsage_def Let_def)

section \<open>Runs of the handlers\<close>

lemmas scenario_defs =
  localEnv_def s3Env_def emptyStorage_def emptyWorld_def exUpload_def worldWithFolder_def
  worldAfterUpload_def worldAfterShare_def liveBytes_def

lemmas service_defs =
  createFile_def getFileById_def deleteFile_def createFolder_def getFolderById_def
  deleteFolder_def createShareLink_def matchingIndices_def spliceAll_def splice1_def
  localStoragePath_def path_join_def s3Client_def getUserStorageUsage_def
  updateUserStorageUsage_def getFileSize_def uploadToS3_def deleteFromS3_def
  uploadToLocalStorage_def deleteFromLocalStorage_def StorageService_uploadFile_def
  StorageService_deleteFile_def authenticated_def FileController_uploadFile_def
  FileController_deleteFile_def FileController_deleteFolder_def Let_def

lemma worldAfterUpload_eq:
  "worldAfterUpload =
     \<lparr> tables = \<lparr> files = [exFile], folders = [exFolderA], shareLinks = [] \<rparr>,
       storage = \<lparr> userStorageUsage = [''u'' \<mapsto> 5],
                   disk = [[''srv'', ''app'', ''uploads'', ''u'', ''k1-a.txt''] \<mapsto> [1, 2, 3, 4, 5]],
                   bucket = Map.empty \<rparr> \<rparr>"
  by (simp add: scenario_defs service_defs exFile_def exFolderA_def)

text \<open>The folder delete handler never reaches the storage service: whatever it
  answers, the usage, the disk and the bucket are as before.\<close>

lemma FileController_deleteFolder_storage:
  "storage (snd (FileController_deleteFolder stack user folder_id w)) = storage w"
  by (simp add: FileController_deleteFolder_def split: option.splits sum.splits)

text \<open>
  Claim C1 fails on the code. After the upload the bytes of the live files of \<open>u\<close> and
  the reported \<open>usedBytes\<close> agree, both 5. The folder delete removes the file and leaves
  the usage: the live files then sum to 0 and \<open>usedBytes\<close> is still 5.
\<close>

theorem deleteFolder_keeps_usage:
  "fst (FileController_uploadFile localEnv False ''k1'' ''X'' 3 (Some ''u'') (Some exUpload)
          (Some ''A'') worldWithFolder) = Response 201 ''success''
   \<and> liveBytes ''u'' (tables worldAfterUpload) = 5
   \<and> usedBytes (getUserStorageUsage ''u'' (storage worldAfterUpload)) = 5
   \<and> fst (FileController_deleteFolder 100 (Some ''u'') ''A'' worldAfterUpload)
       = Response 200 ''Folder deleted successfully''
   \<and> files (tables (snd (FileController_deleteFolder 100 (Some ''u'') ''A'' worldAfterUpload))) = []
   \<and> liveBytes ''u'' (tables (snd (FileController_deleteFolder 100 (Some ''u'') ''A'' worldAfterUpload))) = 0
   \<and> usedBytes (getUserStorageUsage ''u''
        (storage (snd (FileController_deleteFolder 100 (Some ''u'') ''A'' worldAfterUpload)))) = 5"
  by code_simp

lemma deleteFile_removes_links:
  assumes "deleteFile file_id t = Inr t'"
  shows "shareLinks t' = filter (\<lambda>link. fileId link \<noteq> file_id) (shareLinks t)"
  using assms by (auto simp: deleteFile_def Let_def spliceAll_matching split: if_splits)

lemma deleteFolder_result:
  assumes "deleteFolder stack folder_id user_id t = Inr t'"
  shows "shareLinks t' = shareLinks t"
  using assms by (auto simp: deleteFolder_def Let_def split: if_splits option.splits)

text \<open>
  Claim C3 fails on the code. The folder delete removes the file \<open>X\<close>, and the share link
  of \<open>X\<close> is still in the table afterwards.
\<close>

theorem deleteFolder_orphans_share_link:
  "getFileById ''X'' ''u'' (tables worldAfterShare) = Some exFile
   \<and> map fileId (shareLinks (tables worldAfterShare)) = [''X'']
   \<and> fst (FileController_deleteFolder 100 (Some ''u'') ''A'' worldAfterShare)
       = Response 200 ''Folder deleted successfully''
   \<and> files (tables (snd (FileController_deleteFolder 100 (Some ''u'') ''A'' worldAfterShare))) = []
   \<and> map fileId (shareLinks (tables (snd (FileController_deleteFolder 100 (Some ''u'') ''A''
        worldAfterShare)))) = [''X'']"
  by code_simp

text \<open>
  Claim C4 fails on the code. When the put throws, on the local and on the object
  storage alike, the handler answers 500 and creates no file, and the \<open>usedBytes\<close> of the
  user has gone from 0 to the 5 bytes of the payload.
\<close>

theorem failed_put_counts_against_quota:
  "usedBytes (getUserStorageUsage ''u'' (storage worldWithFolder)) = 0
   \<and> fst (FileController_uploadFile localEnv True ''k1'' ''X'' 3 (Some ''u'') (Some exUpload)
          (Some ''A'') worldWithFolder) = Response 500 ''Failed to upload file''
   \<and> files (tables (snd (FileController_uploadFile localEnv True ''k1'' ''X'' 3 (Some ''u'')
          (Some exUpload) (Some ''A'') worldWithFolder))) = []
   \<and> usedBytes (getUserStorageUsage ''u'' (storage (snd (FileController_uploadFile localEnv True
          ''k1'' ''X'' 3 (Some ''u'') (Some exUpload) (Some ''A'') worldWithFolder)))) = 5
   \<and> fst (FileController_uploadFile s3Env True ''k1'' ''X'' 3 (Some ''u'') (Some exUpload)
          (Some ''A'') worldWithFolder) = Response 500 ''Failed to upload file''
   \<and> usedBytes (getUserStorageUsage ''u'' (storage (snd (FileController_uploadFile s3Env True
          ''k1'' ''X'' 3 (Some ''u'') (Some exUpload) (Some ''A'') worldWithFolder)))) = 5"
  by code_simp

text \<open>
  Claim C8 fails on the code. With no file at the key's path, the delete of the local
  variant throws; the object-storage variant succeeds on a key without an object.
\<close>

theorem local_delete_absent_key_fails:
  "disk emptyStorage (path_join (localStoragePath localEnv) ''u/k1-a.txt'') = None
   \<and> fst (StorageService_deleteFile localEnv False ''u/k1-a.txt'' emptyStorage) = Inl IOError
   \<and> bucket emptyStorage ''u/k1-a.txt'' = None
   \<and> fst (StorageService_deleteFile s3Env False ''u/k1-a.txt'' emptyStorage) = Inr ()"
  by (simp add: scenario_defs service_defs)

text \<open>Claim C5 as stated fails: the delete of the medium throws, the handler answers
  500, and the file is still found.\<close>

theorem failed_backend_delete_keeps_metadata_counterexample:
  "fst (StorageService_deleteFile localEnv True (key exFile) (storage worldAfterUpload)) = Inl IOError
   \<and> fst (FileController_deleteFile localEnv True (Some ''u'') ''X'' worldAfterUpload)
       = Response 500 ''Failed to delete file''
   \<and> getFileById ''X'' ''u''
        (tables (snd (FileController_deleteFile localEnv True (Some ''u'') ''X'' worldAfterUpload)))
       = Some exFile"
  by code_simp

text \<open>
  Claim C5, as amended. When \<^verbatim>\<open>StorageService.deleteFile\<close> throws, the delete handler
  answers 500 and the tables are as before: the metadata record of the file is removed
  only after the delete of the medium has succeeded.
\<close>

theorem failed_backend_delete_blocks_removal:
  assumes "authenticated user = Some user_id"
    and "getFileById file_id user_id (tables w) = Some file"
    and "fst (StorageService_deleteFile env fault (key file) (storage w)) = Inl e"
  shows "fst (FileController_deleteFile env fault user file_id w) = Response 500 ''Failed to delete file''
     \<and> tables (snd (FileController_deleteFile env fault user file_id w)) = tables w"
  using assms by (auto simp: FileController_deleteFile_def split: prod.splits sum.splits)

theorem failed_backend_delete_blocks_removal_witness:
  "authenticated (Some ''u'') = Some ''u''
   \<and> getFileById ''X'' ''u'' (tables worldAfterUpload) = Some exFile
   \<and> fst (StorageService_deleteFile localEnv True (key exFile) (storage worldAfterUpload)) = Inl IOError
   \<and> fst (FileController_deleteFile localEnv True (Some ''u'') ''X'' worldAfterUpload)
       = Response 500 ''Failed to delete file''
   \<and> tables (snd (FileController_deleteFile localEnv True (Some ''u'') ''X'' worldAfterUpload))
       = tables worldAfterUpload"
proof -
  have a: "authenticated (Some ''u'') = Some ''u''" by (simp add: authenticated_def)
  have b: "getFileById ''X'' ''u'' (tables worldAfterUpload) = Some exFile"
    by (simp add: worldAfterUpload_eq getFileById_def exFile_def)
  have c: "fst (StorageService_deleteFile localEnv True (key exFile) (storage worldAfterUpload))
             = Inl IOError"
    by (simp add: StorageService_deleteFile_def deleteFromLocalStorage_def localEnv_def Let_def)
  show ?thesis
    using a b c failed_backend_delete_blocks_removal [OF a b c] by simp
qed

end
